theory Spec2Isabelle
  imports Main "HOL-Library.AList" "HOL-Library.Sublist"
begin

section \<open>tinyenv: the coercion engine of \<^verbatim>\<open>src/index.ts\<close>\<close>

text \<open>
  The development embeds \<^verbatim>\<open>parseAndValidate\<close>, \<^verbatim>\<open>convertToType\<close>,
  \<^verbatim>\<open>validateObjectShape\<close>, the \<^verbatim>\<open>~standard.validate\<close> wrapper of
  \<^verbatim>\<open>TinyEnvSchema\<close> and the default export \<^verbatim>\<open>tinyenv\<close>, with the built-ins of the
  language they call.

  Scope of the value model. JavaScript values are the JSON-like ones, \<^verbatim>\<open>undefined\<close>,
  the objects \<^verbatim>\<open>Object.prototype\<close> and \<^verbatim>\<open>Array.prototype\<close>, and their methods as
  opaque function values; functions written by the user, symbols, bigints and class
  instances are not represented. An object is the list of its own enumerable properties
  in enumeration order (distinct names) and has \<^verbatim>\<open>Object.prototype\<close> as its prototype;
  an array is dense and has \<^verbatim>\<open>Array.prototype\<close> as its prototype. Property lookup
  (\<^verbatim>\<open>o[k]\<close> and \<^verbatim>\<open>k in o\<close>) follows the prototype chain, as it does in the language.
  The string and number forms of an object are those of an object that keeps the
  inherited \<^verbatim>\<open>toString\<close> and \<^verbatim>\<open>valueOf\<close>. Strings are lists of 8-bit characters.
  Numbers are IEEE doubles in the program; here their type is a parameter \<open>'n\<close> and
  every operation of the runtime on them is a field of the record \<open>host\<close>, as are the
  names of the methods of the two prototypes and the source text of a built-in function,
  so each theorem holds whatever these are.
\<close>

subsection \<open>Values, errors and the runtime's number operations\<close>

datatype 'n jsval =
    JUndefined
  | JNull
  | JBoolean bool
  | JNumber 'n
  | JString string
  | JArray "'n jsval list"
  | JObject "(string \<times> 'n jsval) list"
  | JFunction string
  | JObjectPrototype
  | JArrayPrototype

text \<open>An exception object: its class and its \<^verbatim>\<open>message\<close>.\<close>

datatype js_error = Error string | TypeError string | SyntaxError string

fun message :: "js_error \<Rightarrow> string" where
  "message (Error m) = m"
| "message (TypeError m) = m"
| "message (SyntaxError m) = m"

text \<open>What a callback throws: an instance of \<^verbatim>\<open>Error\<close>, or any other value.\<close>

datatype 'n thrown = ThrownError js_error | ThrownValue "'n jsval"

record 'n host =
  StringToNumber :: "string \<Rightarrow> 'n"
  NumberToString :: "'n \<Rightarrow> string"
  isNaN :: "'n \<Rightarrow> bool"
  NaN :: "'n"
  num_of_nat :: "nat \<Rightarrow> 'n"
  json_error_text :: "string \<Rightarrow> string"
  Object_prototype :: "string list"
  Array_prototype :: "string list"
  function_text :: "string \<Rightarrow> string"

subsection \<open>Built-ins of the language the source calls\<close>

text \<open>\<^verbatim>\<open>typeof v\<close>.\<close>

fun typeof :: "'n jsval \<Rightarrow> string" where
  "typeof JUndefined = ''undefined''"
| "typeof JNull = ''object''"
| "typeof (JBoolean b) = ''boolean''"
| "typeof (JNumber n) = ''number''"
| "typeof (JString s) = ''string''"
| "typeof (JArray xs) = ''object''"
| "typeof (JObject ps) = ''object''"
| "typeof (JFunction f) = ''function''"
| "typeof JObjectPrototype = ''object''"
| "typeof JArrayPrototype = ''object''"

text \<open>\<^verbatim>\<open>Array.isArray(v)\<close>.\<close>

fun isArray :: "'n jsval \<Rightarrow> bool" where
  "isArray (JArray xs) = True"
| "isArray JArrayPrototype = True"
| "isArray v = False"

text \<open>
  \<^verbatim>\<open>String(v)\<close>, which the template literals of the error messages use as well. An array
  joins its elements with a comma, \<^verbatim>\<open>null\<close> and \<^verbatim>\<open>undefined\<close> elements as the empty
  string; an object is \<^verbatim>\<open>[object Object]\<close>; a built-in function is its source text,
  which is the runtime's; \<^verbatim>\<open>Array.prototype\<close> is an empty array.
\<close>

fun js_String :: "'n host \<Rightarrow> 'n jsval \<Rightarrow> string"
  and join_elements :: "'n host \<Rightarrow> 'n jsval list \<Rightarrow> string" where
  "js_String h JUndefined = ''undefined''"
| "js_String h JNull = ''null''"
| "js_String h (JBoolean b) = (if b then ''true'' else ''false'')"
| "js_String h (JNumber n) = NumberToString h n"
| "js_String h (JString s) = s"
| "js_String h (JArray xs) = join_elements h xs"
| "js_String h (JObject ps) = ''[object Object]''"
| "js_String h (JFunction f) = function_text h f"
| "js_String h JObjectPrototype = ''[object Object]''"
| "js_String h JArrayPrototype = []"
| "join_elements h [] = []"
| "join_elements h (x # xs) =
     (if x = JUndefined \<or> x = JNull then [] else js_String h x)
     @ (if xs = [] then [] else '','' @ join_elements h xs)"

text \<open>
  \<^verbatim>\<open>Number(v)\<close>: a string by the runtime's numeric-string parsing, an array, object
  or function through its string form.
\<close>

fun js_Number :: "'n host \<Rightarrow> 'n jsval \<Rightarrow> 'n" where
  "js_Number h JUndefined = NaN h"
| "js_Number h JNull = num_of_nat h 0"
| "js_Number h (JBoolean b) = num_of_nat h (if b then 1 else 0)"
| "js_Number h (JNumber n) = n"
| "js_Number h (JString s) = StringToNumber h s"
| "js_Number h (JArray xs) = StringToNumber h (js_String h (JArray xs))"
| "js_Number h (JObject ps) = StringToNumber h (js_String h (JObject ps))"
| "js_Number h (JFunction f) = StringToNumber h (js_String h (JFunction f))"
| "js_Number h JObjectPrototype = StringToNumber h (js_String h JObjectPrototype)"
| "js_Number h JArrayPrototype = StringToNumber h (js_String h JArrayPrototype)"

text \<open>
  \<^verbatim>\<open>String.prototype.trim\<close>: white space and line terminators are removed at both
  ends (the 8-bit ones: TAB, LF, VT, FF, CR, space, no-break space).
\<close>

definition is_js_space :: "char \<Rightarrow> bool" where
  "is_js_space c = (of_char c \<in> {9, 10, 11, 12, 13, 32, 160 :: nat})"

definition trim :: "string \<Rightarrow> string" where
  "trim s = rev (dropWhile is_js_space (rev (dropWhile is_js_space s)))"

text \<open>\<^verbatim>\<open>String.prototype.toLowerCase\<close> on 8-bit characters (A-Z and the Latin-1 capitals).\<close>

definition lower_char :: "char \<Rightarrow> char" where
  "lower_char c =
     (let n = (of_char c :: nat) in
      if (65 \<le> n \<and> n \<le> 90) \<or> (192 \<le> n \<and> n \<le> 222 \<and> n \<noteq> 215)
      then char_of (n + 32) else c)"

definition toLowerCase :: "string \<Rightarrow> string" where
  "toLowerCase s = map lower_char s"

text \<open>
  \<^verbatim>\<open>String.prototype.split(sep)\<close> for a string separator: the pieces between the
  occurrences of \<open>sep\<close>, found from the left; with the empty separator, the characters.
\<close>

function split_from :: "string \<Rightarrow> string \<Rightarrow> string \<Rightarrow> string list" where
  "split_from sep acc [] = [rev acc]"
| "split_from sep acc (c # cs) =
     (if sep \<noteq> [] \<and> prefix sep (c # cs)
      then rev acc # split_from sep [] (drop (length sep) (c # cs))
      else split_from sep (c # acc) cs)"
  by pat_completeness auto
termination
proof (relation "measure (\<lambda>(sep, acc, s). length s)")
  show "wf (measure (\<lambda>(sep :: string, acc :: string, s :: string). length s))"
    by simp
next
  fix sep acc :: string and c cs
  assume "sep \<noteq> [] \<and> prefix sep (c # cs)"
  then have "0 < length sep" by simp
  then show "((sep, [], drop (length sep) (c # cs)), sep, acc, c # cs)
      \<in> measure (\<lambda>(sep, acc, s). length s)"
    by simp
next
  fix sep acc :: string and c cs
  show "((sep, c # acc, cs), sep, acc, c # cs) \<in> measure (\<lambda>(sep, acc, s). length s)"
    by simp
qed

definition split :: "string \<Rightarrow> string \<Rightarrow> string list" where
  "split s sep = (if sep = [] then map (\<lambda>c. [c]) s else split_from sep [] s)"

text \<open>The canonical decimal numeral of an array index.\<close>

function decimal :: "nat \<Rightarrow> string" where
  "decimal n =
     (if n < 10 then [char_of (48 + n)] else decimal (n div 10) @ [char_of (48 + n mod 10)])"
  by pat_completeness auto
termination
  by (relation "measure id") auto

declare decimal.simps [simp del]

text \<open>
  Enumeration. \<open>own_properties v\<close> is what \<^verbatim>\<open>for (const prop in v)\<close> enumerates, with
  the values: the own enumerable properties, since the members of the two prototypes
  are not enumerable (\<^verbatim>\<open>for ... in\<close> over \<^verbatim>\<open>null\<close> enumerates nothing).
\<close>

fun own_properties :: "'n jsval \<Rightarrow> (string \<times> 'n jsval) list" where
  "own_properties (JObject ps) = ps"
| "own_properties (JArray xs) = zip (map decimal [0..<length xs]) xs"
| "own_properties v = []"

text \<open>
  Property lookup. \<open>own_property h ob k\<close> is the own data property \<open>k\<close> of the object
  \<open>ob\<close>, enumerable or not: a member of an object, an element or the \<^verbatim>\<open>length\<close> of an
  array, a method of a prototype. \<open>prototype_chain v\<close> is \<open>v\<close> followed by its
  prototypes. \<open>find_property\<close> walks the chain of the receiver \<open>v\<close>; on
  \<^verbatim>\<open>Object.prototype\<close> the name \<^verbatim>\<open>__proto__\<close> is an accessor that gives the prototype of
  the receiver. \<open>get_property h v k\<close> is \<^verbatim>\<open>v[k]\<close> and \<open>has_property h v k\<close> is
  \<^verbatim>\<open>k in v\<close>, for a non-null object \<open>v\<close>.
\<close>

fun own_property :: "'n host \<Rightarrow> 'n jsval \<Rightarrow> string \<Rightarrow> 'n jsval option" where
  "own_property h (JObject ps) k = map_of ps k"
| "own_property h (JArray xs) k =
     (if k = ''length'' then Some (JNumber (num_of_nat h (length xs)))
      else map_of (own_properties (JArray xs)) k)"
| "own_property h JObjectPrototype k =
     (if k \<in> set (Object_prototype h) \<and> k \<noteq> ''__proto__''
      then Some (JFunction (''Object.prototype.'' @ k)) else None)"
| "own_property h JArrayPrototype k =
     (if k = ''length'' then Some (JNumber (num_of_nat h 0))
      else if k \<in> set (Array_prototype h) \<and> k \<noteq> ''__proto__''
      then Some (JFunction (''Array.prototype.'' @ k)) else None)"
| "own_property h v k = None"

fun prototype_of :: "'n jsval \<Rightarrow> 'n jsval" where
  "prototype_of (JObject ps) = JObjectPrototype"
| "prototype_of (JArray xs) = JArrayPrototype"
| "prototype_of JArrayPrototype = JObjectPrototype"
| "prototype_of v = JNull"

fun prototype_chain :: "'n jsval \<Rightarrow> 'n jsval list" where
  "prototype_chain (JObject ps) = [JObject ps, JObjectPrototype]"
| "prototype_chain (JArray xs) = [JArray xs, JArrayPrototype, JObjectPrototype]"
| "prototype_chain JArrayPrototype = [JArrayPrototype, JObjectPrototype]"
| "prototype_chain JObjectPrototype = [JObjectPrototype]"
| "prototype_chain v = []"

fun find_property :: "'n host \<Rightarrow> 'n jsval \<Rightarrow> 'n jsval list \<Rightarrow> string \<Rightarrow> 'n jsval option" where
  "find_property h v [] k = None"
| "find_property h v (ob # obs) k =
     (case own_property h ob k of
        Some x \<Rightarrow> Some x
      | None \<Rightarrow>
          if ob = JObjectPrototype \<and> k = ''__proto__'' then Some (prototype_of v)
          else find_property h v obs k)"

definition get_property :: "'n host \<Rightarrow> 'n jsval \<Rightarrow> string \<Rightarrow> 'n jsval" where
  "get_property h v k =
     (case find_property h v (prototype_chain v) k of None \<Rightarrow> JUndefined | Some x \<Rightarrow> x)"

definition has_property :: "'n host \<Rightarrow> 'n jsval \<Rightarrow> string \<Rightarrow> bool" where
  "has_property h v k = (find_property h v (prototype_chain v) k \<noteq> None)"

text \<open>
  The name \<open>k\<close> is a member that every plain object inherits (\<^verbatim>\<open>k in {}\<close>), and the
  value that an object without an own property \<open>k\<close> gives for it (\<^verbatim>\<open>({})[k]\<close>).
\<close>

definition inherited :: "'n host \<Rightarrow> string \<Rightarrow> bool" where
  "inherited h k = has_property h (JObject []) k"

definition inherited_value :: "'n host \<Rightarrow> string \<Rightarrow> 'n jsval" where
  "inherited_value h k = get_property h (JObject []) k"

lemma has_property_JObject:
  "has_property h (JObject ps) k \<longleftrightarrow> map_of ps k \<noteq> None \<or> inherited h k"
proof (cases "map_of ps k")
  case None
  then show ?thesis by (simp add: has_property_def inherited_def)
next
  case (Some x)
  then show ?thesis by (simp add: has_property_def)
qed

lemma get_property_JObject:
  "get_property h (JObject ps) k =
     (case map_of ps k of Some x \<Rightarrow> x | None \<Rightarrow> inherited_value h k)"
proof (cases "map_of ps k")
  case None
  then show ?thesis by (simp add: get_property_def inherited_value_def)
next
  case (Some x)
  then show ?thesis by (simp add: get_property_def)
qed


subsection \<open>\<^verbatim>\<open>JSON.parse\<close>\<close>

text \<open>
  The text is cut into tokens, then a stack machine reads the tokens. A number literal
  is converted by the runtime's numeric-string parsing. Members of an object are stored
  as \<^verbatim>\<open>JSON.parse\<close> creates them: a repeated name keeps its place and takes the
  later value. A \<^verbatim>\<open>\u\<close> escape above \<^verbatim>\<open>00FF\<close> has no 8-bit character and is refused
  here. Any failure is a \<^verbatim>\<open>SyntaxError\<close>, whose text is the runtime's.
\<close>

datatype token =
    LBrace | RBrace | LBracket | RBracket | Colon | Comma
  | StringTok string | NumberTok string | TrueTok | FalseTok | NullTok

definition is_json_space :: "char \<Rightarrow> bool" where
  "is_json_space c = (of_char c \<in> {9, 10, 13, 32 :: nat})"

definition is_digit :: "char \<Rightarrow> bool" where
  "is_digit c = (48 \<le> (of_char c :: nat) \<and> (of_char c :: nat) \<le> 57)"

definition hex_value :: "char \<Rightarrow> nat option" where
  "hex_value c =
     (let n = (of_char c :: nat) in
      if 48 \<le> n \<and> n \<le> 57 then Some (n - 48)
      else if 65 \<le> n \<and> n \<le> 70 then Some (n - 55)
      else if 97 \<le> n \<and> n \<le> 102 then Some (n - 87)
      else None)"

definition hex4 :: "char \<Rightarrow> char \<Rightarrow> char \<Rightarrow> char \<Rightarrow> nat option" where
  "hex4 a b c d =
     (case (hex_value a, hex_value b, hex_value c, hex_value d) of
        (Some w, Some x, Some y, Some z) \<Rightarrow> Some (((w * 16 + x) * 16 + y) * 16 + z)
      | _ \<Rightarrow> None)"

definition simple_escape :: "char \<Rightarrow> char option" where
  "simple_escape e =
     (if e = CHR 0x22 then Some (CHR 0x22)
      else if e = CHR 0x5C then Some (CHR 0x5C)
      else if e = CHR ''/'' then Some (CHR ''/'')
      else if e = CHR ''b'' then Some (CHR 0x08)
      else if e = CHR ''f'' then Some (CHR 0x0C)
      else if e = CHR ''n'' then Some (CHR 0x0A)
      else if e = CHR ''r'' then Some (CHR 0x0D)
      else if e = CHR ''t'' then Some (CHR 0x09)
      else None)"

text \<open>The body of a string literal, after its opening quote: the decoded text and the rest.\<close>

fun scan_string :: "string \<Rightarrow> string \<Rightarrow> (string \<times> string) option" where
  "scan_string acc [] = None"
| "scan_string acc (c # cs) =
     (if c = CHR 0x22 then Some (rev acc, cs)
      else if c = CHR 0x5C then
        (case cs of
           [] \<Rightarrow> None
         | e # es \<Rightarrow>
             if e = CHR ''u'' then
               (case es of
                  a # b # c # d # r \<Rightarrow>
                    (case hex4 a b c d of
                       None \<Rightarrow> None
                     | Some n \<Rightarrow> if n < 256 then scan_string (char_of n # acc) r else None)
                | _ \<Rightarrow> None)
             else
               (case simple_escape e of
                  None \<Rightarrow> None
                | Some x \<Rightarrow> scan_string (x # acc) es))
      else if (of_char c :: nat) < 32 then None
      else scan_string (c # acc) cs)"

text \<open>The grammar of a number literal: \<^verbatim>\<open>-? (0 | [1-9][0-9]*) (. [0-9]+)? ([eE] [+-]? [0-9]+)?\<close>.\<close>

definition json_number :: "string \<Rightarrow> bool" where
  "json_number s =
     (let s1 = (case s of [] \<Rightarrow> [] | c # cs \<Rightarrow> if c = CHR ''-'' then cs else s);
          ip = takeWhile is_digit s1;
          r1 = dropWhile is_digit s1;
          fraction_ok = (case r1 of [] \<Rightarrow> True
                         | c # cs \<Rightarrow> c \<noteq> CHR ''.'' \<or> takeWhile is_digit cs \<noteq> []);
          r2 = (case r1 of [] \<Rightarrow> [] | c # cs \<Rightarrow> if c = CHR ''.'' then dropWhile is_digit cs else r1);
          exponent_ok =
            (case r2 of
               [] \<Rightarrow> True
             | c # cs \<Rightarrow>
                 (c = CHR ''e'' \<or> c = CHR ''E'') \<and>
                 (let ds = (case cs of [] \<Rightarrow> []
                            | x # xs \<Rightarrow> if x = CHR ''+'' \<or> x = CHR ''-'' then xs else cs)
                  in ds \<noteq> [] \<and> list_all is_digit ds))
      in (ip = ''0'' \<or> (ip \<noteq> [] \<and> hd ip \<noteq> CHR ''0'')) \<and> fraction_ok \<and> exponent_ok)"

definition is_number_char :: "char \<Rightarrow> bool" where
  "is_number_char c = (is_digit c \<or> c \<in> set ''+-.eE'')"

text \<open>The token at the head of a text that does not start with white space.\<close>

definition next_token :: "string \<Rightarrow> (token \<times> string) option" where
  "next_token s =
     (case s of
        [] \<Rightarrow> None
      | c # cs \<Rightarrow>
          if c = CHR ''{'' then Some (LBrace, cs)
          else if c = CHR ''}'' then Some (RBrace, cs)
          else if c = CHR ''['' then Some (LBracket, cs)
          else if c = CHR '']'' then Some (RBracket, cs)
          else if c = CHR '':'' then Some (Colon, cs)
          else if c = CHR '','' then Some (Comma, cs)
          else if c = CHR 0x22 then
            (case scan_string [] cs of None \<Rightarrow> None | Some (t, r) \<Rightarrow> Some (StringTok t, r))
          else if c = CHR ''-'' \<or> is_digit c then
            (if json_number (takeWhile is_number_char s)
             then Some (NumberTok (takeWhile is_number_char s), dropWhile is_number_char s)
             else None)
          else if prefix ''true'' s then Some (TrueTok, drop 4 s)
          else if prefix ''false'' s then Some (FalseTok, drop 5 s)
          else if prefix ''null'' s then Some (NullTok, drop 4 s)
          else None)"

lemma scan_string_shorter: "scan_string acc s = Some (t, r) \<Longrightarrow> length r < length s"
proof (induction acc s rule: scan_string.induct)
  case (1 acc)
  then show ?case by simp
next
  case (2 acc c cs)
  show ?case
  proof (cases "c = CHR 0x22")
    case True
    with "2.prems" show ?thesis by simp
  next
    case quote: False
    show ?thesis
    proof (cases "c = CHR 0x5C")
      case False
      with quote "2.prems" "2.IH"(3) show ?thesis
        by (auto split: if_splits)
    next
      case True
      from "2.prems" quote True obtain e es where cs: "cs = e # es"
        by (cases cs) auto
      show ?thesis
      proof (cases "e = CHR ''u''")
        case False
        from "2.prems" quote True cs False obtain x where
          x: "simple_escape e = Some x" and s: "scan_string (x # acc) es = Some (t, r)"
          by (auto split: option.splits)
        from "2.IH"(2) [OF quote True cs False x] s cs show ?thesis by simp
      next
        case u: True
        from "2.prems" quote True cs u obtain a b c' d r' n where
          es: "es = a # b # c' # d # r'" and n: "hex4 a b c' d = Some n" and lt: "n < 256"
          and s: "scan_string (char_of n # acc) r' = Some (t, r)"
          by (auto split: list.splits option.splits if_splits)
        have "length r < length r'"
          using "2.IH"(1) [OF quote True cs u, of a "b # c' # d # r'" b "c' # d # r'" c' "d # r'" d r' n] es n lt s
          by simp
        with cs es show ?thesis by simp
      qed
    qed
  qed
qed

lemma next_token_shorter:
  assumes "next_token s = Some (t, r)"
  shows "length r < length s"
proof (cases s)
  case Nil
  with assms show ?thesis by (simp add: next_token_def)
next
  case (Cons c cs)
  have num: "length (dropWhile is_number_char s) < length s" if "is_number_char c"
  proof -
    have "dropWhile is_number_char s = dropWhile is_number_char cs"
      using Cons that by simp
    moreover have "length (dropWhile is_number_char cs) \<le> length cs"
      by (rule length_dropWhile_le)
    ultimately show ?thesis using Cons by simp
  qed
  have nc: "is_number_char c" if "c = CHR ''-'' \<or> is_digit c"
    using that by (auto simp: is_number_char_def)
  have r: "r = cs \<or> (\<exists>t'. scan_string [] cs = Some (t', r))
      \<or> (is_number_char c \<and> r = dropWhile is_number_char s) \<or> r = drop 4 s \<or> r = drop 5 s"
    using assms nc unfolding next_token_def Cons list.case
    by (auto split: if_splits option.splits)
  then show ?thesis
    using num scan_string_shorter [of "[]" cs _ r] Cons by auto
qed

function tokens :: "string \<Rightarrow> token list option" where
  "tokens s =
     (case dropWhile is_json_space s of
        [] \<Rightarrow> Some []
      | c # cs \<Rightarrow>
          (case next_token (c # cs) of
             None \<Rightarrow> None
           | Some (t, r) \<Rightarrow> (case tokens r of None \<Rightarrow> None | Some ts \<Rightarrow> Some (t # ts))))"
  by pat_completeness auto
termination
proof (relation "measure length")
  show "wf (measure (length :: string \<Rightarrow> nat))" by simp
next
  fix s :: string and c cs x t r
  assume d: "dropWhile is_json_space s = c # cs"
    and n: "next_token (c # cs) = Some x" and x: "(t, r) = x"
  have "length r < length (c # cs)"
    using n x next_token_shorter [of "c # cs" t r] by simp
  moreover have "length (c # cs) \<le> length s"
    using length_dropWhile_le [of is_json_space s] d by simp
  ultimately show "(r, s) \<in> measure length" by simp
qed

declare tokens.simps [simp del]


text \<open>
  The stack machine. A frame is an array with its elements so far (latest first), an
  object with its members so far, or an object whose next member has its name and waits
  for the value.
\<close>

datatype 'n frame =
    ArrayFrame "'n jsval list"
  | ObjectFrame "(string \<times> 'n jsval) list"
  | MemberFrame "(string \<times> 'n jsval) list" string

datatype expecting =
    WantValue | WantValueOrClose | WantKeyOrClose | WantKey | WantColon | WantCommaOrClose

datatype 'n parser = Parsing "'n frame list" expecting | Done "'n jsval" | Failed

fun reduce :: "'n jsval \<Rightarrow> 'n frame list \<Rightarrow> 'n parser" where
  "reduce v [] = Done v"
| "reduce v (ArrayFrame vs # st) = Parsing (ArrayFrame (v # vs) # st) WantCommaOrClose"
| "reduce v (MemberFrame ps k # st) =
     Parsing (ObjectFrame (AList.update k v ps) # st) WantCommaOrClose"
| "reduce v (ObjectFrame ps # st) = Failed"

fun open_value :: "'n host \<Rightarrow> 'n frame list \<Rightarrow> token \<Rightarrow> 'n parser" where
  "open_value h st LBracket = Parsing (ArrayFrame [] # st) WantValueOrClose"
| "open_value h st LBrace = Parsing (ObjectFrame [] # st) WantKeyOrClose"
| "open_value h st (StringTok s) = reduce (JString s) st"
| "open_value h st (NumberTok x) = reduce (JNumber (StringToNumber h x)) st"
| "open_value h st TrueTok = reduce (JBoolean True) st"
| "open_value h st FalseTok = reduce (JBoolean False) st"
| "open_value h st NullTok = reduce JNull st"
| "open_value h st t = Failed"

fun member_name :: "'n frame list \<Rightarrow> token \<Rightarrow> 'n parser" where
  "member_name (ObjectFrame ps # st) (StringTok k) = Parsing (MemberFrame ps k # st) WantColon"
| "member_name st t = Failed"

fun close_array :: "'n frame list \<Rightarrow> 'n parser" where
  "close_array (ArrayFrame vs # st) = reduce (JArray (rev vs)) st"
| "close_array st = Failed"

fun close_object :: "'n frame list \<Rightarrow> 'n parser" where
  "close_object (ObjectFrame ps # st) = reduce (JObject ps) st"
| "close_object st = Failed"

fun step :: "'n host \<Rightarrow> 'n parser \<Rightarrow> token \<Rightarrow> 'n parser" where
  "step h (Parsing st WantValue) t = open_value h st t"
| "step h (Parsing st WantValueOrClose) t =
     (if t = RBracket then close_array st else open_value h st t)"
| "step h (Parsing st WantKeyOrClose) t =
     (if t = RBrace then close_object st else member_name st t)"
| "step h (Parsing st WantKey) t = member_name st t"
| "step h (Parsing st WantColon) t = (if t = Colon then Parsing st WantValue else Failed)"
| "step h (Parsing st WantCommaOrClose) t =
     (case st of
        ArrayFrame vs # r \<Rightarrow>
          if t = Comma then Parsing st WantValue
          else if t = RBracket then close_array st else Failed
      | ObjectFrame ps # r \<Rightarrow>
          if t = Comma then Parsing st WantKey
          else if t = RBrace then close_object st else Failed
      | _ \<Rightarrow> Failed)"
| "step h (Done v) t = Failed"
| "step h Failed t = Failed"

definition JSON_parse :: "'n host \<Rightarrow> string \<Rightarrow> js_error + 'n jsval" where
  "JSON_parse h s =
     (case tokens s of
        None \<Rightarrow> Inl (SyntaxError (json_error_text h s))
      | Some ts \<Rightarrow>
          (case foldl (step h) (Parsing [] WantValue) ts of
             Done v \<Rightarrow> Inr v
           | _ \<Rightarrow> Inl (SyntaxError (json_error_text h s))))"

subsection \<open>\<^verbatim>\<open>validateObjectShape\<close>\<close>

text \<open>\<^verbatim>\<open>path.join('.')\<close>.\<close>

fun join :: "string \<Rightarrow> string list \<Rightarrow> string" where
  "join sep [] = []"
| "join sep [x] = x"
| "join sep (x # y # ys) = x @ sep @ join sep (y # ys)"

text \<open>\<^verbatim>\<open>${key}${path.length > 0 ? '.' + path.join('.') : ''}\<close>.\<close>

definition located :: "string \<Rightarrow> string list \<Rightarrow> string" where
  "located key path = key @ (if length path > 0 then ''.'' @ join ''.'' path else [])"

fun weight :: "'n jsval \<Rightarrow> nat" where
  "weight (JArray xs) = Suc (sum_list (map (\<lambda>x. Suc (Suc (weight x))) xs))"
| "weight (JObject ps) = Suc (sum_list (map (\<lambda>p. Suc (Suc (weight (snd p)))) ps))"
| "weight v = 0"

definition weights :: "(string \<times> 'n jsval) list \<Rightarrow> nat" where
  "weights ps = sum_list (map (\<lambda>p. Suc (Suc (weight (snd p)))) ps)"

lemma weights_own_properties: "weights (own_properties d) \<le> weight d"
proof (cases d)
  case (JArray xs)
  have "map snd (zip (map decimal [0..<length xs]) xs) = xs"
    by (simp add: map_snd_zip)
  then have "map (\<lambda>p. Suc (Suc (weight (snd p)))) (zip (map decimal [0..<length xs]) xs)
      = map (\<lambda>x. Suc (Suc (weight x))) xs"
    by (metis (no_types, lifting) map_map comp_apply map_eq_conv)
  then show ?thesis using JArray by (simp add: weights_def)
qed (simp_all add: weights_def)

function validateObjectShape ::
    "'n host \<Rightarrow> 'n jsval \<Rightarrow> 'n jsval \<Rightarrow> string \<Rightarrow> string list \<Rightarrow> js_error + unit"
  and check_properties ::
    "'n host \<Rightarrow> 'n jsval \<Rightarrow> (string \<times> 'n jsval) list \<Rightarrow> string \<Rightarrow> string list \<Rightarrow> js_error + unit"
  where
  "validateObjectShape h v d key path =
     (if typeof v \<noteq> typeof d then
        Inl (TypeError (''Invalid type for '' @ located key path
               @ '': expected '' @ typeof d @ '', got '' @ typeof v))
      else if typeof v = ''object'' \<and> v \<noteq> JNull then
        check_properties h v (own_properties d) key path
      else Inr ())"
| "check_properties h v [] key path = Inr ()"
| "check_properties h v ((prop, dv) # rest) key path =
     (if \<not> has_property h v prop \<and> dv \<noteq> JUndefined then
        Inl (Error (''Missing required property '' @ located key path @ ''.'' @ prop))
      else
        (case (if has_property h v prop
               then validateObjectShape h (get_property h v prop) dv key (path @ [prop])
               else Inr ()) of
           Inl e \<Rightarrow> Inl e
         | Inr u \<Rightarrow> check_properties h v rest key path))"
  by pat_completeness auto
termination
proof (relation "measure (\<lambda>x. case x of
          Inl (h, v, d, key, path) \<Rightarrow> Suc (weight d)
        | Inr (h, v, ps, key, path) \<Rightarrow> weights ps)")
  show "wf (measure (\<lambda>x :: ('n host \<times> 'n jsval \<times> 'n jsval \<times> string \<times> string list)
           + ('n host \<times> 'n jsval \<times> (string \<times> 'n jsval) list \<times> string \<times> string list).
        case x of Inl (h, v, d, key, path) \<Rightarrow> Suc (weight d)
        | Inr (h, v, ps, key, path) \<Rightarrow> weights ps))"
    by simp
qed (simp_all add: weights_own_properties le_imp_less_Suc, simp_all add: weights_def)

declare validateObjectShape.simps [simp del]

subsection \<open>\<^verbatim>\<open>convertToType\<close>\<close>

text \<open>
  The parameter \<open>type\<close> is declared a string; at run time it is whatever was read from
  \<^verbatim>\<open>arrayTypes\<close>, so it is a value here, compared with the case labels by \<^verbatim>\<open>===\<close>.
\<close>

definition convertToType :: "'n host \<Rightarrow> string \<Rightarrow> 'n jsval \<Rightarrow> string \<Rightarrow> js_error + 'n jsval" where
  "convertToType h value type key =
     (if type = JString ''number'' then
        (let num = StringToNumber h value in
         if isNaN h num then
           Inl (TypeError (''Failed to parse '' @ key @ '' array element as number: '' @ value))
         else Inr (JNumber num))
      else if type = JString ''boolean'' then
        (let str = toLowerCase value in
         if str \<in> set [''true'', ''1'', ''yes''] then Inr (JBoolean True)
         else if str \<in> set [''false'', ''0'', ''no''] then Inr (JBoolean False)
         else Inl (Error (''Failed to parse '' @ key @ '' array element as boolean: '' @ value)))
      else Inr (JString value))"

text \<open>\<^verbatim>\<open>elements.map(f)\<close> for an \<open>f\<close> that may throw: the first throw ends the map.\<close>

fun map_throwing :: "('a \<Rightarrow> js_error + 'b) \<Rightarrow> 'a list \<Rightarrow> js_error + 'b list" where
  "map_throwing f [] = Inr []"
| "map_throwing f (x # xs) =
     (case f x of
        Inl e \<Rightarrow> Inl e
      | Inr y \<Rightarrow> (case map_throwing f xs of Inl e \<Rightarrow> Inl e | Inr ys \<Rightarrow> Inr (y # ys)))"

subsection \<open>\<^verbatim>\<open>TinyEnvSchema\<close>\<close>

datatype ArrayType = string_type | number_type | boolean_type

fun type_name :: "ArrayType \<Rightarrow> string" where
  "type_name string_type = ''string''"
| "type_name number_type = ''number''"
| "type_name boolean_type = ''boolean''"

text \<open>
  The options. \<open>defaults_object\<close> and \<open>arrayTypes_object\<close> are the objects
  \<^verbatim>\<open>options.defaults\<close> and \<^verbatim>\<open>options.arrayTypes\<close> by their own properties, or \<open>None\<close>
  when the object is not given (also when no options are given at all). The validator
  is taken as a function of its two arguments: \<open>None\<close> when it returns, and what it
  throws otherwise.
\<close>

record 'n options =
  defaults_object :: "(string \<times> 'n jsval) list option"
  validator :: "(string \<Rightarrow> 'n jsval \<Rightarrow> 'n thrown option) option"
  delimiter :: "string option"
  arrayTypes_object :: "(string \<times> ArrayType) list option"

text \<open>
  The defaults and array types that the options declare: the own properties of the two
  objects. A key mapped to \<open>JUndefined\<close> is a key declared with the value
  \<^verbatim>\<open>undefined\<close>.
\<close>

definition defaults :: "'n options \<Rightarrow> string \<rightharpoonup> 'n jsval" where
  "defaults opts = (case defaults_object opts of None \<Rightarrow> Map.empty | Some ps \<Rightarrow> map_of ps)"


text \<open>
  The first lines of the loop body: \<^verbatim>\<open>rawValue\<close>, \<^verbatim>\<open>isEmpty\<close>, \<^verbatim>\<open>defaultValue\<close>
  (\<^verbatim>\<open>this.options?.defaults?.[key]\<close>) and \<^verbatim>\<open>arrayType\<close>
  (\<^verbatim>\<open>this.options?.arrayTypes?.[key]\<close>), and the test
  \<^verbatim>\<open>key in (this.options?.defaults ?? {})\<close> of line 101. The three lookups follow the
  prototype chain of the object they read.
\<close>

definition rawValue :: "'n host \<Rightarrow> 'n jsval \<Rightarrow> string \<Rightarrow> 'n jsval" where
  "rawValue h envVars key = get_property h envVars key"

definition isEmpty :: "'n jsval \<Rightarrow> bool" where
  "isEmpty raw = (case raw of JString s \<Rightarrow> trim s = [] | _ \<Rightarrow> False)"

definition defaultValue :: "'n host \<Rightarrow> 'n options \<Rightarrow> string \<Rightarrow> 'n jsval" where
  "defaultValue h opts key =
     (case defaults_object opts of
        None \<Rightarrow> JUndefined
      | Some ps \<Rightarrow> get_property h (JObject ps) key)"

definition arrayType :: "'n host \<Rightarrow> 'n options \<Rightarrow> string \<Rightarrow> 'n jsval" where
  "arrayType h opts key =
     (case arrayTypes_object opts of
        None \<Rightarrow> JUndefined
      | Some ts \<Rightarrow> get_property h (JObject (map (\<lambda>(k, t). (k, JString (type_name t))) ts)) key)"

definition in_defaults :: "'n host \<Rightarrow> 'n options \<Rightarrow> string \<Rightarrow> bool" where
  "in_defaults h opts key =
     has_property h (JObject (case defaults_object opts of None \<Rightarrow> [] | Some ps \<Rightarrow> ps)) key"

text \<open>Line 113: the raw value if it is not empty, the default otherwise.\<close>

definition selected_value :: "'n jsval \<Rightarrow> 'n jsval \<Rightarrow> 'n jsval" where
  "selected_value raw dflt = (if isEmpty raw \<or> raw = JUndefined then dflt else raw)"

text \<open>
  The array branch (lines 143 to 163), for a default array with the elements \<open>dflt\<close>.
  The value of \<^verbatim>\<open>arrayType\<close> is \<^verbatim>\<open>undefined\<close>, the name of a declared type or an
  inherited member (a function or an object), so it is truthy exactly when it is not
  \<^verbatim>\<open>undefined\<close>.
\<close>

definition parse_array ::
    "'n host \<Rightarrow> 'n options \<Rightarrow> string \<Rightarrow> 'n jsval list \<Rightarrow> 'n jsval \<Rightarrow> js_error + 'n jsval" where
  "parse_array h opts key dflt value =
     (let elements =
            filter (\<lambda>el. el \<noteq> [])
              (map trim (split (js_String h value)
                 (case delimiter opts of None \<Rightarrow> '','' | Some d \<Rightarrow> d)))
      in if arrayType h opts key \<noteq> JUndefined then
           (case map_throwing (\<lambda>el. convertToType h el (arrayType h opts key) key) elements of
              Inl e \<Rightarrow> Inl e | Inr vs \<Rightarrow> Inr (JArray vs))
         else if length dflt > 0 then
           (case map_throwing (\<lambda>el. convertToType h el (JString (typeof (hd dflt))) key) elements of
              Inl e \<Rightarrow> Inl e | Inr vs \<Rightarrow> Inr (JArray vs))
         else Inr (JArray (map JString elements)))"

text \<open>The branch of the other objects (lines 165 to 176): the \<^verbatim>\<open>try\<close> block and its handler.\<close>

definition parse_object ::
    "'n host \<Rightarrow> string \<Rightarrow> 'n jsval \<Rightarrow> 'n jsval \<Rightarrow> js_error + 'n jsval" where
  "parse_object h key dflt value =
     (case (case JSON_parse h (js_String h value) of
              Inl e \<Rightarrow> Inl e
            | Inr parsed \<Rightarrow>
                (case validateObjectShape h parsed dflt key [] of
                   Inl e \<Rightarrow> Inl e
                 | Inr u \<Rightarrow> Inr parsed)) of
        Inl error \<Rightarrow> Inl (Error (''Failed to parse '' @ key @ '' as JSON: '' @ message error))
      | Inr parsed \<Rightarrow> Inr parsed)"

text \<open>
  The type dispatch (lines 116 to 183): the value of \<^verbatim>\<open>parsedValue\<close> for the default
  and the selected value, or the error thrown.
\<close>

definition convert_value ::
    "'n host \<Rightarrow> 'n options \<Rightarrow> string \<Rightarrow> 'n jsval \<Rightarrow> 'n jsval \<Rightarrow> js_error + 'n jsval" where
  "convert_value h opts key dflt value =
     (if dflt = JUndefined then Inr (JString (js_String h value))
      else if typeof dflt = ''number'' then
        (let num = js_Number h value in
         if isNaN h num then
           Inl (TypeError (''Failed to parse '' @ key @ '' as number: '' @ js_String h value))
         else Inr (JNumber num))
      else if typeof dflt = ''boolean'' then
        (let str = toLowerCase (js_String h value) in
         if str \<in> set [''true'', ''1'', ''yes''] then Inr (JBoolean True)
         else if str \<in> set [''false'', ''0'', ''no''] then Inr (JBoolean False)
         else Inl (Error (''Failed to parse '' @ key @ '' as boolean: '' @ js_String h value)))
      else if typeof dflt = ''object'' then
        (case dflt of
           JArray ds \<Rightarrow> parse_array h opts key ds value
         | JArrayPrototype \<Rightarrow> parse_array h opts key [] value
         | _ \<Rightarrow> parse_object h key dflt value)
      else Inr (JString (js_String h value)))"

text \<open>
  The loop body up to the validator (lines 95 to 183): the two checks, the selection of
  the value and the type dispatch.
\<close>

definition parsedValue :: "'n host \<Rightarrow> 'n options \<Rightarrow> 'n jsval \<Rightarrow> string \<Rightarrow> js_error + 'n jsval" where
  "parsedValue h opts envVars key =
     (let raw = rawValue h envVars key;
          dflt = defaultValue h opts key
      in if dflt = JUndefined \<and> in_defaults h opts key then
           Inl (Error (''Invalid default value for key '' @ key @ '': undefined is not allowed''))
         else if (raw = JUndefined \<or> isEmpty raw) \<and> dflt = JUndefined then
           Inl (Error (''Missing environment variable: '' @ key))
         else convert_value h opts key dflt (selected_value raw dflt))"

text \<open>
  The validator step (lines 186 to 195), with the calls made to the validator: the error
  thrown, or the value stored under the key.
\<close>

definition run_validator ::
    "'n host \<Rightarrow> 'n options \<Rightarrow> string \<Rightarrow> 'n jsval \<Rightarrow> (string \<times> 'n jsval) list \<times> (js_error + 'n jsval)" where
  "run_validator h opts key v =
     (case validator opts of
        None \<Rightarrow> ([], Inr v)
      | Some f \<Rightarrow>
          ([(key, v)],
           (case f key v of
              None \<Rightarrow> Inr v
            | Some (ThrownError error) \<Rightarrow> Inl error
            | Some (ThrownValue error) \<Rightarrow>
                Inl (Error (''Validation failed for '' @ key @ '': '' @ js_String h error)))))"

definition process_key ::
    "'n host \<Rightarrow> 'n options \<Rightarrow> 'n jsval \<Rightarrow> string \<Rightarrow> (string \<times> 'n jsval) list \<times> (js_error + 'n jsval)" where
  "process_key h opts envVars key =
     (case parsedValue h opts envVars key of
        Inl e \<Rightarrow> ([], Inl e)
      | Inr v \<Rightarrow> run_validator h opts key v)"

text \<open>
  The loop over the keys, with the record \<open>env\<close> built so far and the validator calls
  made so far. A throw leaves the loop.
\<close>

fun key_loop ::
    "'n host \<Rightarrow> 'n options \<Rightarrow> 'n jsval \<Rightarrow> string list \<Rightarrow> (string \<times> 'n jsval) list
      \<Rightarrow> (string \<times> 'n jsval) list
      \<Rightarrow> (string \<times> 'n jsval) list \<times> (js_error + (string \<times> 'n jsval) list)" where
  "key_loop h opts envVars [] env calls = (calls, Inr env)"
| "key_loop h opts envVars (key # keys) env calls =
     (case process_key h opts envVars key of
        (cs, Inl e) \<Rightarrow> (calls @ cs, Inl e)
      | (cs, Inr v) \<Rightarrow> key_loop h opts envVars keys (AList.update key v env) (calls @ cs))"

definition parseAndValidate ::
    "'n host \<Rightarrow> string list \<Rightarrow> 'n options \<Rightarrow> 'n jsval
      \<Rightarrow> (string \<times> 'n jsval) list \<times> (js_error + (string \<times> 'n jsval) list)" where
  "parseAndValidate h keys opts value =
     (if typeof value \<noteq> ''object'' \<or> value = JNull then
        ([], Inl (Error ''Input must be an object''))
      else key_loop h opts value keys [] [])"

text \<open>\<^verbatim>\<open>~standard.validate\<close>: the record, or one issue with the message of the error.\<close>

datatype 'n validation = Value "(string \<times> 'n jsval) list" | Issues "string list"

definition validate :: "'n host \<Rightarrow> string list \<Rightarrow> 'n options \<Rightarrow> 'n jsval \<Rightarrow> 'n validation" where
  "validate h keys opts value =
     (case snd (parseAndValidate h keys opts value) of
        Inr result \<Rightarrow> Value result
      | Inl error \<Rightarrow> Issues [message error])"

text \<open>
  The default export \<^verbatim>\<open>tinyenv(keys, options)\<close>, with \<^verbatim>\<open>process.env\<close> as a
  parameter: it throws the first issue as an \<^verbatim>\<open>Error\<close>.
\<close>

definition tinyenv ::
    "'n host \<Rightarrow> string list \<Rightarrow> 'n options \<Rightarrow> 'n jsval \<Rightarrow> js_error + (string \<times> 'n jsval) list" where
  "tinyenv h keys opts process_env =
     (case validate h keys opts process_env of
        Value result \<Rightarrow> Inr result
      | Issues [] \<Rightarrow> Inl (Error ''Validation failed'')
      | Issues (m # ms) \<Rightarrow> Inl (Error m))"

subsection \<open>A runtime to evaluate with\<close>

text \<open>
  The theorems below hold for every \<open>host\<close>. Closed instances are evaluated with this
  one, whose numbers are the integers and \<^verbatim>\<open>NaN\<close> (\<open>None\<close>): a numeric string is an
  optionally signed decimal integer between white space, and the empty string is zero.
  Its prototypes have the methods of the language standard.
\<close>

definition digits_value :: "string \<Rightarrow> nat" where
  "digits_value ds = foldl (\<lambda>n c. 10 * n + (of_char c - 48)) 0 ds"

definition integer_of_string :: "string \<Rightarrow> int option" where
  "integer_of_string s =
     (case trim s of
        [] \<Rightarrow> Some 0
      | c # cs \<Rightarrow>
          if list_all is_digit (c # cs) then Some (int (digits_value (c # cs)))
          else if c = CHR ''-'' \<and> cs \<noteq> [] \<and> list_all is_digit cs then Some (- int (digits_value cs))
          else if c = CHR ''+'' \<and> cs \<noteq> [] \<and> list_all is_digit cs then Some (int (digits_value cs))
          else None)"

definition string_of_integer :: "int option \<Rightarrow> string" where
  "string_of_integer n =
     (case n of
        None \<Rightarrow> ''NaN''
      | Some i \<Rightarrow> if i < 0 then ''-'' @ decimal (nat (- i)) else decimal (nat i))"

text \<open>
  \<^verbatim>\<open>String(f)\<close> for a built-in method \<open>f\<close>, named here by its place
  (\<^verbatim>\<open>Object.prototype.toString\<close>): the text carries the name of the function, which for
  the two \<^verbatim>\<open>constructor\<close> members is \<^verbatim>\<open>Object\<close> and \<^verbatim>\<open>Array\<close>.
\<close>

definition native_function_text :: "string \<Rightarrow> string" where
  "native_function_text f =
     ''function ''
     @ (if f = ''Object.prototype.constructor'' then ''Object''
        else if f = ''Array.prototype.constructor'' then ''Array''
        else rev (takeWhile (\<lambda>c. c \<noteq> CHR ''.'') (rev f)))
     @ ''() { [native code] }''"

definition integer_host :: "int option host" where
  "integer_host =
     \<lparr> StringToNumber = integer_of_string,
       NumberToString = string_of_integer,
       isNaN = (\<lambda>n. n = None),
       NaN = None,
       num_of_nat = (\<lambda>n. Some (int n)),
       json_error_text = (\<lambda>s. ''Unexpected token in JSON''),
       Object_prototype =
         [''constructor'', ''__defineGetter__'', ''__defineSetter__'', ''hasOwnProperty'',
          ''__lookupGetter__'', ''__lookupSetter__'', ''isPrototypeOf'',
          ''propertyIsEnumerable'', ''toString'', ''valueOf'', ''toLocaleString''],
       Array_prototype =
         [''constructor'', ''at'', ''concat'', ''copyWithin'', ''fill'', ''find'', ''findIndex'',
          ''findLast'', ''findLastIndex'', ''lastIndexOf'', ''pop'', ''push'', ''reverse'',
          ''shift'', ''unshift'', ''slice'', ''sort'', ''splice'', ''includes'', ''indexOf'',
          ''join'', ''keys'', ''entries'', ''values'', ''forEach'', ''filter'', ''flat'',
          ''flatMap'', ''map'', ''every'', ''some'', ''reduce'', ''reduceRight'',
          ''toLocaleString'', ''toString'', ''toReversed'', ''toSorted'', ''toSpliced'',
          ''with''],
       function_text = native_function_text \<rparr>"

subsection \<open>Notions the claims are stated with\<close>

text \<open>Processing the key ends with a value to store, not with a throw.\<close>

definition succeeds :: "'n host \<Rightarrow> 'n options \<Rightarrow> 'n jsval \<Rightarrow> string \<Rightarrow> bool" where
  "succeeds h opts envVars key = (case snd (process_key h opts envVars key) of Inr v \<Rightarrow> True | Inl e \<Rightarrow> False)"

text \<open>The raw value is absent, or a string of white space only.\<close>

definition blank :: "'n jsval \<Rightarrow> bool" where
  "blank raw = (case raw of JUndefined \<Rightarrow> True | JString s \<Rightarrow> list_all is_js_space s | _ \<Rightarrow> False)"


text \<open>
  The record after the keys are processed from the record \<open>env\<close> (keys that throw store
  nothing), and the validator calls that processing the keys makes.
\<close>

definition stored ::
    "'n host \<Rightarrow> 'n options \<Rightarrow> 'n jsval \<Rightarrow> string list \<Rightarrow> (string \<times> 'n jsval) list
      \<Rightarrow> (string \<times> 'n jsval) list" where
  "stored h opts envVars keys env =
     foldl (\<lambda>env key. case snd (process_key h opts envVars key) of
                         Inr v \<Rightarrow> AList.update key v env | Inl e \<Rightarrow> env) env keys"

definition calls_of ::
    "'n host \<Rightarrow> 'n options \<Rightarrow> 'n jsval \<Rightarrow> string list \<Rightarrow> (string \<times> 'n jsval) list" where
  "calls_of h opts envVars keys = concat (map (\<lambda>key. fst (process_key h opts envVars key)) keys)"

subsection \<open>Options and validators of the examples\<close>

text \<open>A schema built without options.\<close>

definition no_options :: "'n options" where
  "no_options = \<lparr> defaults_object = None, validator = None, delimiter = None,
     arrayTypes_object = None \<rparr>"

text \<open>The validator of the repository's tests, and one that throws a string.\<close>

definition port_validator :: "string \<Rightarrow> int option jsval \<Rightarrow> int option thrown option" where
  "port_validator key v =
     (case v of
        JNumber (Some n) \<Rightarrow>
          if key = ''PORT'' \<and> (n < 1024 \<or> n > 65535)
          then Some (ThrownError (Error ''Port must be between 1024 and 65535''))
          else None
      | _ \<Rightarrow> None)"

definition string_thrower :: "string \<Rightarrow> int option jsval \<Rightarrow> int option thrown option" where
  "string_thrower key v = Some (ThrownValue (JString ''rejected''))"

definition port_options ::
    "(string \<Rightarrow> int option jsval \<Rightarrow> int option thrown option) \<Rightarrow> int option options" where
  "port_options f = \<lparr> defaults_object = Some [(''PORT'', JNumber (Some 8080))], validator = Some f,
     delimiter = None, arrayTypes_object = None \<rparr>"

subsection \<open>The repository's tests, evaluated\<close>

text \<open>
  The cases of the test file that the integer runtime can express, with
  \<^verbatim>\<open>process.env\<close> as the last argument. Where a test expects a throw it matches a part
  of the message; the whole message is given here.
\<close>

definition with_defaults :: "(string \<times> int option jsval) list \<Rightarrow> int option options" where
  "with_defaults ds = \<lparr> defaults_object = Some ds, validator = None, delimiter = None,
     arrayTypes_object = None \<rparr>"

lemma tests_basic_functionality:
  "tinyenv integer_host [''APP_NAME''] no_options (JObject [(''APP_NAME'', JString ''MyApp'')])
     = Inr [(''APP_NAME'', JString ''MyApp'')]"
  "tinyenv integer_host [''MISSING_VAR''] no_options (JObject [])
     = Inl (Error ''Missing environment variable: MISSING_VAR'')"
  "tinyenv integer_host [''PORT''] (with_defaults [(''PORT'', JNumber (Some 3000))]) (JObject [])
     = Inr [(''PORT'', JNumber (Some 3000))]"
  "tinyenv integer_host [''PORT''] (with_defaults [(''PORT'', JNumber (Some 3000))])
       (JObject [(''PORT'', JString ''8080'')])
     = Inr [(''PORT'', JNumber (Some 8080))]"
  "tinyenv integer_host [''NAME''] (with_defaults [(''NAME'', JString ''default'')])
       (JObject [(''NAME'', JString '''')])
     = Inr [(''NAME'', JString ''default'')]"
  "tinyenv integer_host [''NAME''] (with_defaults [(''NAME'', JString ''default'')])
       (JObject [(''NAME'', JString ''   '')])
     = Inr [(''NAME'', JString ''default'')]"
  by code_simp+

lemma tests_type_conversion:
  "tinyenv integer_host [''COUNT''] (with_defaults [(''COUNT'', JNumber (Some 0))])
       (JObject [(''COUNT'', JString ''42'')])
     = Inr [(''COUNT'', JNumber (Some 42))]"
  "tinyenv integer_host [''COUNT''] (with_defaults [(''COUNT'', JNumber (Some 0))])
       (JObject [(''COUNT'', JString ''not-a-number'')])
     = Inl (Error ''Failed to parse COUNT as number: not-a-number'')"
  "map (\<lambda>s. tinyenv integer_host [''FLAG''] (with_defaults [(''FLAG'', JBoolean False)])
              (JObject [(''FLAG'', JString s)]))
       [''true'', ''1'', ''yes'', ''TRUE'', ''YES'']
     = replicate 5 (Inr [(''FLAG'', JBoolean True)])"
  "map (\<lambda>s. tinyenv integer_host [''FLAG''] (with_defaults [(''FLAG'', JBoolean True)])
              (JObject [(''FLAG'', JString s)]))
       [''false'', ''0'', ''no'', ''FALSE'', ''NO'']
     = replicate 5 (Inr [(''FLAG'', JBoolean False)])"
  "tinyenv integer_host [''FLAG''] (with_defaults [(''FLAG'', JBoolean False)])
       (JObject [(''FLAG'', JString ''invalid'')])
     = Inl (Error ''Failed to parse FLAG as boolean: invalid'')"
  by code_simp+

lemma tests_array_handling:
  "tinyenv integer_host [''HOSTS''] (with_defaults [(''HOSTS'', JArray [])])
       (JObject [(''HOSTS'', JString ''localhost,127.0.0.1,example.com'')])
     = Inr [(''HOSTS'', JArray [JString ''localhost'', JString ''127.0.0.1'', JString ''example.com''])]"
  "tinyenv integer_host [''PORTS''] (with_defaults [(''PORTS'', JArray [JNumber (Some 8080)])])
       (JObject [(''PORTS'', JString ''3000,4000,5000'')])
     = Inr [(''PORTS'', JArray [JNumber (Some 3000), JNumber (Some 4000), JNumber (Some 5000)])]"
  "tinyenv integer_host [''LIST'']
       \<lparr> defaults_object = Some [(''LIST'', JArray [])], validator = None, delimiter = Some '';'',
         arrayTypes_object = None \<rparr>
       (JObject [(''LIST'', JString ''a;b;c'')])
     = Inr [(''LIST'', JArray [JString ''a'', JString ''b'', JString ''c''])]"
  "tinyenv integer_host [''NUMS'']
       \<lparr> defaults_object = Some [(''NUMS'', JArray [])], validator = None, delimiter = None,
         arrayTypes_object = Some [(''NUMS'', number_type)] \<rparr>
       (JObject [(''NUMS'', JString ''1,2,3'')])
     = Inr [(''NUMS'', JArray [JNumber (Some 1), JNumber (Some 2), JNumber (Some 3)])]"
  "tinyenv integer_host [''NUMS''] (with_defaults [(''NUMS'', JArray [JNumber (Some 0)])])
       (JObject [(''NUMS'', JString ''1,not-a-number,3'')])
     = Inl (Error ''Failed to parse NUMS array element as number: not-a-number'')"
  "tinyenv integer_host [''FLAGS'']
       \<lparr> defaults_object = Some [(''FLAGS'', JArray [])], validator = None, delimiter = None,
         arrayTypes_object = Some [(''FLAGS'', boolean_type)] \<rparr>
       (JObject [(''FLAGS'', JString ''true,0,yes,false,1,no'')])
     = Inr [(''FLAGS'', JArray [JBoolean True, JBoolean False, JBoolean True,
                                JBoolean False, JBoolean True, JBoolean False])]"
  "tinyenv integer_host [''LIST''] (with_defaults [(''LIST'', JArray [])])
       (JObject [(''LIST'', JString '' a , b , c '')])
     = Inr [(''LIST'', JArray [JString ''a'', JString ''b'', JString ''c''])]"
  by code_simp+

lemma tests_object_validation:
  \<open>tinyenv integer_host [''CONFIG'']
       (with_defaults [(''CONFIG'', JObject [(''db'', JObject [(''host'', JString ''''), (''port'', JNumber (Some 0))])])])
       (JObject [(''CONFIG'', JString ''{"db":{"host":"localhost","port":5432}}'')])
     = Inr [(''CONFIG'',
             JObject [(''db'', JObject [(''host'', JString ''localhost''),
                                        (''port'', JNumber (Some 5432))])])]\<close>
  \<open>tinyenv integer_host [''CONFIG''] (with_defaults [(''CONFIG'', JObject [])])
       (JObject [(''CONFIG'', JString ''invalid-json'')])
     = Inl (Error ''Failed to parse CONFIG as JSON: Unexpected token in JSON'')\<close>
  by code_simp+

lemma tests_custom_validation_and_edge_cases:
  "tinyenv integer_host [''PORT''] (port_options port_validator)
       (JObject [(''PORT'', JString ''80'')])
     = Inl (Error ''Port must be between 1024 and 65535'')"
  "tinyenv integer_host [''VAR''] (with_defaults [(''VAR'', JUndefined)]) (JObject [])
     = Inl (Error ''Invalid default value for key VAR: undefined is not allowed'')"
  by code_simp+

subsection \<open>Names that objects inherit, evaluated\<close>

text \<open>
  Lookups that reach a prototype. The parsed object \<^verbatim>\<open>{}\<close> has a \<^verbatim>\<open>toString\<close>, so the
  shape check against the default \<^verbatim>\<open>{toString: "x"}\<close> compares the inherited function
  with the string. For the key \<^verbatim>\<open>toString\<close> the test \<^verbatim>\<open>key in {}\<close> of line 101 holds
  when no defaults are given; with the defaults \<^verbatim>\<open>{}\<close> the default read for the key is
  the inherited function, and so is the raw value read from the input \<^verbatim>\<open>{}\<close>.
\<close>

lemma inherited_members_evaluated:
  \<open>validateObjectShape integer_host (JObject []) (JObject [(''toString'', JString ''x'')])
       ''CONFIG'' []
     = Inl (TypeError ''Invalid type for CONFIG.toString: expected string, got function'')\<close>
  \<open>validate integer_host [''CONFIG'']
       (with_defaults [(''CONFIG'', JObject [(''toString'', JString ''x'')])])
       (JObject [(''CONFIG'', JString ''{}'')])
     = Issues [''Failed to parse CONFIG as JSON: Invalid type for CONFIG.toString: expected string, got function'']\<close>
  \<open>validate integer_host [''toString''] no_options (JObject [])
     = Issues [''Invalid default value for key toString: undefined is not allowed'']\<close>
  \<open>validate integer_host [''toString''] (with_defaults []) (JObject [])
     = Value [(''toString'', JString ''function toString() { [native code] }'')]\<close>
  \<open>validate integer_host [''constructor''] (with_defaults [])
       (JObject [(''constructor'', JString '' '')])
     = Value [(''constructor'', JString ''function Object() { [native code] }'')]\<close>
  \<open>validate integer_host [''length''] (with_defaults [(''length'', JNumber (Some 1))])
       (JArray [JNull, JNull])
     = Value [(''length'', JNumber (Some 2))]\<close>
  by code_simp+

section \<open>Facts shared by the claims\<close>

subsection \<open>The loop over the keys\<close>

lemma validate_of_error:
  "snd (parseAndValidate h keys opts value) = Inl e \<Longrightarrow>
   validate h keys opts value = Issues [message e]"
  by (simp add: validate_def)

lemma tinyenv_of_issue:
  "validate h keys opts env = Issues [m] \<Longrightarrow> tinyenv h keys opts env = Inl (Error m)"
  by (simp add: tinyenv_def)

lemma is_object_loop:
  "typeof value = ''object'' \<Longrightarrow> value \<noteq> JNull \<Longrightarrow>
   parseAndValidate h keys opts value = key_loop h opts value keys [] []"
  by (simp add: parseAndValidate_def)

lemma key_loop_prefix:
  assumes "list_all (succeeds h opts ev) xs"
  shows "key_loop h opts ev (xs @ ys) env calls
    = key_loop h opts ev ys (stored h opts ev xs env) (calls @ calls_of h opts ev xs)"
  using assms
proof (induction xs arbitrary: env calls)
  case Nil
  show ?case by (simp add: stored_def calls_of_def)
next
  case (Cons k ks)
  from Cons.prems obtain cs v where pk: "process_key h opts ev k = (cs, Inr v)"
    by (cases "process_key h opts ev k") (auto simp: succeeds_def split: sum.splits)
  from Cons.prems have rest: "list_all (succeeds h opts ev) ks" by simp
  show ?case
    using pk Cons.IH [OF rest, of "AList.update k v env" "calls @ cs"]
    by (simp add: stored_def calls_of_def)
qed

lemma key_loop_fails_at:
  assumes "list_all (succeeds h opts ev) before"
    and "snd (process_key h opts ev key) = Inl e"
  shows "key_loop h opts ev (before @ key # after) env calls
    = (calls @ calls_of h opts ev (before @ [key]), Inl e)"
proof -
  obtain cs where pk: "process_key h opts ev key = (cs, Inl e)"
    using assms(2) by (cases "process_key h opts ev key") auto
  show ?thesis
    using key_loop_prefix [OF assms(1), of "key # after" env calls] pk
    by (simp add: calls_of_def)
qed

lemma key_loop_succeeds:
  assumes "list_all (succeeds h opts ev) keys"
  shows "key_loop h opts ev keys env calls
    = (calls @ calls_of h opts ev keys, Inr (stored h opts ev keys env))"
  using key_loop_prefix [OF assms, of "[]" env calls] by simp

lemma key_loop_Inr_succeeds:
  "snd (key_loop h opts ev keys env calls) = Inr r \<Longrightarrow> list_all (succeeds h opts ev) keys"
proof (induction keys arbitrary: env calls)
  case Nil
  show ?case by simp
next
  case (Cons k ks)
  obtain cs x where pk: "process_key h opts ev k = (cs, x)"
    by (cases "process_key h opts ev k")
  show ?case
  proof (cases x)
    case (Inl e)
    with pk Cons.prems show ?thesis by simp
  next
    case (Inr v)
    with pk Cons.prems have "snd (key_loop h opts ev ks (AList.update k v env) (calls @ cs)) = Inr r"
      by simp
    from Cons.IH [OF this] pk Inr show ?thesis by (simp add: succeeds_def)
  qed
qed

lemma calls_of_keys: "fst ` set (calls_of h opts ev keys) \<subseteq> set keys"
  by (auto simp: calls_of_def process_key_def run_validator_def
      split: sum.splits option.splits)

lemma key_loop_calls:
  assumes "validator opts = Some f"
    and "snd (key_loop h opts ev keys env calls) = Inr r"
  shows "\<exists>cs. fst (key_loop h opts ev keys env calls) = calls @ cs \<and> map fst cs = keys
    \<and> list_all (\<lambda>(k, v). parsedValue h opts ev k = Inr v) cs"
proof -
  have all: "list_all (succeeds h opts ev) keys"
    using assms(2) by (rule key_loop_Inr_succeeds)
  have one: "\<exists>v. fst (process_key h opts ev k) = [(k, v)] \<and> parsedValue h opts ev k = Inr v"
    if "succeeds h opts ev k" for k
    using that assms(1)
    by (auto simp: succeeds_def process_key_def run_validator_def split: sum.splits)
  have "map fst (calls_of h opts ev ks) = ks
      \<and> list_all (\<lambda>(k, v). parsedValue h opts ev k = Inr v) (calls_of h opts ev ks)"
    if "list_all (succeeds h opts ev) ks" for ks
    using that
  proof (induction ks)
    case Nil
    show ?case by (simp add: calls_of_def)
  next
    case (Cons k ks)
    from Cons.prems one [of k] obtain v where
      "fst (process_key h opts ev k) = [(k, v)]" "parsedValue h opts ev k = Inr v"
      by auto
    with Cons show ?case by (simp add: calls_of_def)
  qed
  from this [OF all] key_loop_succeeds [OF all, of env calls] show ?thesis by simp
qed

lemma failing_key_fails_run:
  assumes "key \<in> set keys" and "\<not> succeeds h opts value key"
  shows "\<exists>ms. validate h keys opts value = Issues ms"
proof (cases "snd (parseAndValidate h keys opts value)")
  case (Inl e)
  then show ?thesis by (simp add: validate_def)
next
  case (Inr r)
  then have obj: "typeof value = ''object''" "value \<noteq> JNull"
    by (auto simp: parseAndValidate_def split: if_splits)
  from Inr have "snd (key_loop h opts value keys [] []) = Inr r"
    by (simp add: is_object_loop [OF obj])
  then have "list_all (succeeds h opts value) keys" by (rule key_loop_Inr_succeeds)
  with assms show ?thesis by (simp add: list_all_iff)
qed

lemma run_fails_at:
  assumes "typeof value = ''object''" and "value \<noteq> JNull"
    and "list_all (succeeds h opts value) before"
    and "parsedValue h opts value key = Inl e"
  shows "validate h (before @ key # after) opts value = Issues [message e]"
proof -
  have "snd (process_key h opts value key) = Inl e"
    using assms(4) by (simp add: process_key_def)
  from key_loop_fails_at [OF assms(3) this, of after "[]" "[]"] show ?thesis
    by (simp add: validate_def is_object_loop [OF assms(1,2)])
qed

subsection \<open>Declared defaults and array types\<close>

lemma declared_default:
  assumes "defaults opts key = Some d"
  shows "defaultValue h opts key = d" and "in_defaults h opts key"
proof -
  from assms obtain ps where ps: "defaults_object opts = Some ps" "map_of ps key = Some d"
    by (cases "defaults_object opts") (simp_all add: defaults_def)
  from ps show "defaultValue h opts key = d"
    by (simp add: defaultValue_def get_property_JObject)
  from ps show "in_defaults h opts key"
    by (simp add: in_defaults_def has_property_JObject)
qed




subsection \<open>Strings\<close>

lemma trim_empty_iff: "trim s = [] \<longleftrightarrow> list_all is_js_space s"
proof
  assume "list_all is_js_space s"
  then have "dropWhile is_js_space s = []"
    by (metis dropWhile_eq_Nil_conv list_all_iff)
  then show "trim s = []" by (simp add: trim_def del: dropWhile_eq_Nil_conv)
next
  assume t: "trim s = []"
  show "list_all is_js_space s"
  proof (cases "dropWhile is_js_space s")
    case Nil
    then show ?thesis by (simp add: list_all_iff dropWhile_eq_Nil_conv)
  next
    case (Cons x xs)
    then have nx: "\<not> is_js_space x" using hd_dropWhile [of is_js_space s] by auto
    from t have "dropWhile is_js_space (rev (dropWhile is_js_space s)) = []"
      by (simp add: trim_def)
    then have "\<forall>y \<in> set (rev (dropWhile is_js_space s)). is_js_space y"
      by (simp add: dropWhile_eq_Nil_conv)
    with Cons nx show ?thesis by simp
  qed
qed

lemma blank_iff: "blank raw \<longleftrightarrow> raw = JUndefined \<or> isEmpty raw"
  by (cases raw) (simp_all add: blank_def isEmpty_def trim_empty_iff)

lemma toLowerCase_words:
  "toLowerCase ''true'' = ''true''" "toLowerCase ''false'' = ''false''"
  by (simp_all add: toLowerCase_def lower_char_def)

subsection \<open>Arrays and objects\<close>



lemma parse_object_Object:
  \<open>JSON_parse h ''[object Object]'' = Inl (SyntaxError (json_error_text h ''[object Object]''))\<close>
  by (simp add: JSON_parse_def tokens.simps next_token_def is_json_space_def is_digit_def)

lemma parse_object_wraps_shape_error:
  assumes "JSON_parse h (js_String h value) = Inr parsed"
    and "validateObjectShape h parsed dflt key [] = Inl e"
  shows "parse_object h key dflt value
    = Inl (Error (''Failed to parse '' @ key @ '' as JSON: '' @ message e))"
  using assms by (simp add: parse_object_def)





section \<open>The claims\<close>

subsection \<open>C1: the message of a shape failure\<close>

text \<open>
  C1. The claim is that a shape failure surfaces with exactly the message
  \<^verbatim>\<open>Missing required property {KEY}.{p}\<close> (or \<^verbatim>\<open>Invalid type for {KEY}.{p}: ...\<close>), with
  no text around it. The call of \<^verbatim>\<open>validateObjectShape\<close> stands inside the \<^verbatim>\<open>try\<close>
  block of the JSON branch, so its error is caught and thrown again as a plain
  \<^verbatim>\<open>Error\<close> behind \<^verbatim>\<open>Failed to parse {KEY} as JSON: \<close>. On the inputs of the
  repository's own examples (default \<^verbatim>\<open>{db:{host:"",port:0}}\<close>, values
  \<^verbatim>\<open>{"db":{"host":"localhost"}}\<close> and \<^verbatim>\<open>{"db":{"host":"localhost","port":"5432"}}\<close>)
  the messages are the ones below.
\<close>

theorem missing_property_message_is_wrapped:
  \<open>validate integer_host [''CONFIG'']
     \<lparr> defaults_object = Some [(''CONFIG'', JObject [(''db'', JObject [(''host'', JString ''''), (''port'', JNumber (Some 0))])])],
       validator = None, delimiter = None, arrayTypes_object = None \<rparr>
     (JObject [(''CONFIG'', JString ''{"db":{"host":"localhost"}}'')])
     = Issues [''Failed to parse CONFIG as JSON: Missing required property CONFIG.db.port'']
   \<and> tinyenv integer_host [''CONFIG'']
     \<lparr> defaults_object = Some [(''CONFIG'', JObject [(''db'', JObject [(''host'', JString ''''), (''port'', JNumber (Some 0))])])],
       validator = None, delimiter = None, arrayTypes_object = None \<rparr>
     (JObject [(''CONFIG'', JString ''{"db":{"host":"localhost"}}'')])
     = Inl (Error ''Failed to parse CONFIG as JSON: Missing required property CONFIG.db.port'')
   \<and> validate integer_host [''CONFIG'']
     \<lparr> defaults_object = Some [(''CONFIG'', JObject [(''db'', JObject [(''host'', JString ''''), (''port'', JNumber (Some 0))])])],
       validator = None, delimiter = None, arrayTypes_object = None \<rparr>
     (JObject [(''CONFIG'', JString ''{"db":{"host":"localhost","port":"5432"}}'')])
     = Issues [''Failed to parse CONFIG as JSON: Invalid type for CONFIG.db.port: expected number, got string'']\<close>
  by code_simp

subsection \<open>C2: the object-shape check\<close>




subsection \<open>C3: a default that is \<^verbatim>\<open>undefined\<close>\<close>

text \<open>
  C3. For a key that is in the defaults with the value \<^verbatim>\<open>undefined\<close>, processing the
  key throws \<^verbatim>\<open>Invalid default value for key {KEY}: undefined is not allowed\<close> whatever
  the input holds for the key: the check comes before the presence check and the
  parsing, and the validator is not called. When the run reaches the key (the keys
  before it succeed), \<^verbatim>\<open>validate\<close> fails with exactly this message; and whatever the
  other keys do, a run over keys that include this one never returns a record.
\<close>

theorem undefined_default_is_rejected:
  assumes "defaults opts key = Some JUndefined"
  shows "process_key h opts envVars key
      = ([], Inl (Error (''Invalid default value for key '' @ key @ '': undefined is not allowed'')))
    \<and> (typeof envVars = ''object'' \<and> envVars \<noteq> JNull
        \<and> list_all (succeeds h opts envVars) before \<longrightarrow>
          validate h (before @ key # after) opts envVars
            = Issues [''Invalid default value for key '' @ key @ '': undefined is not allowed''])
    \<and> (key \<in> set keys \<longrightarrow> (\<exists>ms. validate h keys opts envVars = Issues ms))"
proof -
  have p: "parsedValue h opts envVars key
      = Inl (Error (''Invalid default value for key '' @ key @ '': undefined is not allowed''))"
    using declared_default [OF assms, of h] by (simp add: parsedValue_def)
  then have k: "process_key h opts envVars key
      = ([], Inl (Error (''Invalid default value for key '' @ key @ '': undefined is not allowed'')))"
    by (simp add: process_key_def)
  then have "\<not> succeeds h opts envVars key" by (simp add: succeeds_def)
  then have "key \<in> set keys \<longrightarrow> (\<exists>ms. validate h keys opts envVars = Issues ms)"
    using failing_key_fails_run [of key keys h opts envVars] by blast
  with k run_fails_at [of envVars h opts before key _ after, OF _ _ _ p]
  show ?thesis by simp
qed

theorem undefined_default_is_rejected_witness:
  "validate integer_host [''X'']
      \<lparr> defaults_object = Some [(''X'', JUndefined)], validator = None, delimiter = None,
        arrayTypes_object = None \<rparr>
      (JObject [(''X'', JString ''usable'')])
    = Issues [''Invalid default value for key X: undefined is not allowed'']"
proof -
  let ?opts = "\<lparr> defaults_object = Some [(''X'', JUndefined)], validator = None, delimiter = None,
        arrayTypes_object = None \<rparr> :: int option options"
  let ?env = "JObject [(''X'', JString ''usable'')] :: int option jsval"
  have d: "defaults ?opts ''X'' = Some JUndefined" by (simp add: defaults_def)
  from undefined_default_is_rejected [OF d, of integer_host ?env "[]" "[]" "[]"]
  show ?thesis by simp
qed

subsection \<open>C4: a blank value is an absent value\<close>




subsection \<open>C5: an array default\<close>




subsection \<open>C6: a boolean default\<close>

text \<open>
  C6. For a key whose default is a boolean, the string form \<open>s\<close> of the selected value
  is lower-cased: \<^verbatim>\<open>true\<close>, \<^verbatim>\<open>1\<close> and \<^verbatim>\<open>yes\<close> give \<^verbatim>\<open>true\<close>; \<^verbatim>\<open>false\<close>, \<^verbatim>\<open>0\<close> and
  \<^verbatim>\<open>no\<close> give \<^verbatim>\<open>false\<close>; anything else throws \<^verbatim>\<open>Failed to parse {KEY} as boolean: \<close>
  followed by \<open>s\<close> as it was given. For a raw string that is not blank \<open>s\<close> is the raw
  string, so the match ignores its case; for a blank or absent raw value the result is
  the default.
\<close>

theorem boolean_default_parsing:
  assumes "defaults opts key = Some (JBoolean b)"
    and "s = js_String h (selected_value (rawValue h envVars key) (JBoolean b))"
  shows "parsedValue h opts envVars key =
      (if toLowerCase s \<in> {''true'', ''1'', ''yes''} then Inr (JBoolean True)
       else if toLowerCase s \<in> {''false'', ''0'', ''no''} then Inr (JBoolean False)
       else Inl (Error (''Failed to parse '' @ key @ '' as boolean: '' @ s)))
    \<and> (\<forall>r. rawValue h envVars key = JString r \<and> \<not> list_all is_js_space r \<longrightarrow> s = r)
    \<and> (blank (rawValue h envVars key) \<longrightarrow> parsedValue h opts envVars key = Inr (JBoolean b))"
proof -
  have main: "parsedValue h opts envVars key =
      (if toLowerCase s \<in> {''true'', ''1'', ''yes''} then Inr (JBoolean True)
       else if toLowerCase s \<in> {''false'', ''0'', ''no''} then Inr (JBoolean False)
       else Inl (Error (''Failed to parse '' @ key @ '' as boolean: '' @ s)))"
    using assms(2) declared_default [OF assms(1), of h]
    by (simp add: parsedValue_def Let_def convert_value_def)
  have raw: "s = r" if "rawValue h envVars key = JString r" "\<not> list_all is_js_space r" for r
    using that assms(2) by (simp add: selected_value_def isEmpty_def trim_empty_iff)
  have dflt: "parsedValue h opts envVars key = Inr (JBoolean b)" if "blank (rawValue h envVars key)"
  proof -
    from that have "selected_value (rawValue h envVars key) (JBoolean b) = JBoolean b"
      by (auto simp: blank_iff selected_value_def)
    with assms(2) have "s = (if b then ''true'' else ''false'')" by simp
    with main show ?thesis by (simp add: toLowerCase_words)
  qed
  from main raw dflt show ?thesis by blast
qed

theorem boolean_default_parsing_witness:
  "parsedValue integer_host
      \<lparr> defaults_object = Some [(''FLAG'', JBoolean False)], validator = None, delimiter = None,
        arrayTypes_object = None \<rparr> (JObject [(''FLAG'', JString ''Yes'')]) ''FLAG''
     = Inr (JBoolean True)
   \<and> parsedValue integer_host
      \<lparr> defaults_object = Some [(''FLAG'', JBoolean True)], validator = None, delimiter = None,
        arrayTypes_object = None \<rparr> (JObject [(''FLAG'', JString ''NO'')]) ''FLAG''
     = Inr (JBoolean False)
   \<and> parsedValue integer_host
      \<lparr> defaults_object = Some [(''FLAG'', JBoolean False)], validator = None, delimiter = None,
        arrayTypes_object = None \<rparr> (JObject [(''FLAG'', JString ''invalid'')]) ''FLAG''
     = Inl (Error ''Failed to parse FLAG as boolean: invalid'')"
proof -
  let ?f = "\<lparr> defaults_object = Some [(''FLAG'', JBoolean False)], validator = None, delimiter = None,
        arrayTypes_object = None \<rparr> :: int option options"
  let ?t = "\<lparr> defaults_object = Some [(''FLAG'', JBoolean True)], validator = None, delimiter = None,
        arrayTypes_object = None \<rparr> :: int option options"
  have df: "defaults ?f ''FLAG'' = Some (JBoolean False)"
    and dt: "defaults ?t ''FLAG'' = Some (JBoolean True)" by (simp_all add: defaults_def)
  have s1: "''Yes'' = js_String integer_host
      (selected_value (rawValue integer_host (JObject [(''FLAG'', JString ''Yes'')]) ''FLAG'')
         (JBoolean False))" by code_simp
  have s2: "''NO'' = js_String integer_host
      (selected_value (rawValue integer_host (JObject [(''FLAG'', JString ''NO'')]) ''FLAG'')
         (JBoolean True))" by code_simp
  have s3: "''invalid'' = js_String integer_host
      (selected_value (rawValue integer_host (JObject [(''FLAG'', JString ''invalid'')]) ''FLAG'')
         (JBoolean False))" by code_simp
  have l: "toLowerCase ''Yes'' = ''yes''" "toLowerCase ''NO'' = ''no''"
    "toLowerCase ''invalid'' = ''invalid''" by code_simp+
  from boolean_default_parsing [OF df s1] l
  have a: "parsedValue integer_host ?f (JObject [(''FLAG'', JString ''Yes'')]) ''FLAG''
      = Inr (JBoolean True)" by simp
  from boolean_default_parsing [OF dt s2] l
  have b: "parsedValue integer_host ?t (JObject [(''FLAG'', JString ''NO'')]) ''FLAG''
      = Inr (JBoolean False)" by simp
  from boolean_default_parsing [OF df s3] l
  have c: "parsedValue integer_host ?f (JObject [(''FLAG'', JString ''invalid'')]) ''FLAG''
      = Inl (Error ''Failed to parse FLAG as boolean: invalid'')" by simp
  from a b c show ?thesis by simp
qed

subsection \<open>C7: the first failure wins\<close>

text \<open>
  C7. Keys are processed in declaration order and the run stops at the first key that
  fails. When the keys \<open>before\<close> all succeed and \<open>key\<close> fails with the error \<open>e\<close>, the
  run over \<open>before @ key # after\<close> throws \<open>e\<close>, whatever the keys \<open>after\<close> are and
  whether they would fail: the outcome and the validator calls are those of the run over
  \<open>before @ [key]\<close>, the validator is called for no key of \<open>after\<close> that is not among the
  earlier ones, and the caller sees one issue with the message of \<open>e\<close> and no record.
\<close>

theorem first_failure_wins:
  assumes "typeof value = ''object''" and "value \<noteq> JNull"
    and "list_all (succeeds h opts value) before"
    and "snd (process_key h opts value key) = Inl e"
  shows "snd (parseAndValidate h (before @ key # after) opts value) = Inl e
    \<and> parseAndValidate h (before @ key # after) opts value
        = parseAndValidate h (before @ [key]) opts value
    \<and> fst ` set (fst (parseAndValidate h (before @ key # after) opts value))
        \<subseteq> set (before @ [key])
    \<and> validate h (before @ key # after) opts value = Issues [message e]
    \<and> (\<forall>r. validate h (before @ key # after) opts value \<noteq> Value r)
    \<and> tinyenv h (before @ key # after) opts value = Inl (Error (message e))"
proof -
  have run: "parseAndValidate h (before @ key # ks) opts value
      = (calls_of h opts value (before @ [key]), Inl e)" for ks
    using key_loop_fails_at [OF assms(3,4), of ks "[]" "[]"] assms(1,2)
    by (simp add: is_object_loop)
  have v: "validate h (before @ key # after) opts value = Issues [message e]"
    using run [of after] by (simp add: validate_of_error)
  show ?thesis
    using run [of after] run [of "[]"] v tinyenv_of_issue [OF v]
      calls_of_keys [of h opts "value" "before @ [key]"]
    by simp
qed

theorem first_failure_wins_witness:
  "list_all (succeeds integer_host no_options (JObject [(''A'', JString ''x'')])) [''A'']
   \<and> snd (process_key integer_host no_options (JObject [(''A'', JString ''x'')]) ''B'')
       = Inl (Error ''Missing environment variable: B'')
   \<and> snd (process_key integer_host no_options (JObject [(''A'', JString ''x'')]) ''C'')
       = Inl (Error ''Missing environment variable: C'')
   \<and> validate integer_host [''A'', ''B'', ''C''] no_options (JObject [(''A'', JString ''x'')])
       = Issues [''Missing environment variable: B'']"
proof -
  let ?env = "JObject [(''A'', JString ''x'')] :: int option jsval"
  have 1: "typeof ?env = ''object''" and 2: "?env \<noteq> JNull" by simp_all
  have 3: "list_all (succeeds integer_host no_options ?env) [''A'']" by code_simp
  have 4: "snd (process_key integer_host no_options ?env ''B'')
      = Inl (Error ''Missing environment variable: B'')" by code_simp
  have 5: "snd (process_key integer_host no_options ?env ''C'')
      = Inl (Error ''Missing environment variable: C'')" by code_simp
  from first_failure_wins [OF 1 2 3 4, of "[''C'']"] 3 4 5 show ?thesis by simp
qed

subsection \<open>C8: the validator\<close>

text \<open>
  C8. When a validator is supplied and the conversion of a key gives \<open>v\<close>, the
  validator is called exactly once for that key, with the key and \<open>v\<close>; a key whose
  conversion fails gets no call. If the validator returns, \<open>v\<close> is stored. If it throws
  an \<^verbatim>\<open>Error\<close> instance (a failure that carries a message), that very error is thrown
  on; if it throws any other value \<open>x\<close>, an \<^verbatim>\<open>Error\<close> with the message
  \<^verbatim>\<open>Validation failed for {KEY}: \<close> followed by the string form of \<open>x\<close> is thrown. In a
  run that succeeds the calls are, in the order of the keys, one per key with its
  converted value.
\<close>

theorem validator_called_once_after_conversion:
  assumes "validator opts = Some f"
  shows "(\<forall>v. parsedValue h opts envVars key = Inr v \<longrightarrow>
        fst (process_key h opts envVars key) = [(key, v)]
        \<and> (f key v = None \<longrightarrow> snd (process_key h opts envVars key) = Inr v)
        \<and> (\<forall>e. f key v = Some (ThrownError e) \<longrightarrow>
              snd (process_key h opts envVars key) = Inl e)
        \<and> (\<forall>x. f key v = Some (ThrownValue x) \<longrightarrow>
              snd (process_key h opts envVars key)
                = Inl (Error (''Validation failed for '' @ key @ '': '' @ js_String h x))))
    \<and> (\<forall>e. parsedValue h opts envVars key = Inl e \<longrightarrow>
          process_key h opts envVars key = ([], Inl e))
    \<and> (\<forall>r. snd (parseAndValidate h keys opts envVars) = Inr r \<longrightarrow>
          map fst (fst (parseAndValidate h keys opts envVars)) = keys
          \<and> list_all (\<lambda>(k, v). parsedValue h opts envVars k = Inr v)
               (fst (parseAndValidate h keys opts envVars)))"
proof -
  have per_key: "\<forall>v. parsedValue h opts envVars key = Inr v \<longrightarrow>
        fst (process_key h opts envVars key) = [(key, v)]
        \<and> (f key v = None \<longrightarrow> snd (process_key h opts envVars key) = Inr v)
        \<and> (\<forall>e. f key v = Some (ThrownError e) \<longrightarrow>
              snd (process_key h opts envVars key) = Inl e)
        \<and> (\<forall>x. f key v = Some (ThrownValue x) \<longrightarrow>
              snd (process_key h opts envVars key)
                = Inl (Error (''Validation failed for '' @ key @ '': '' @ js_String h x)))"
    using assms by (simp add: process_key_def run_validator_def)
  have failed: "\<forall>e. parsedValue h opts envVars key = Inl e \<longrightarrow>
      process_key h opts envVars key = ([], Inl e)"
    by (simp add: process_key_def)
  have run: "map fst (fst (parseAndValidate h keys opts envVars)) = keys
      \<and> list_all (\<lambda>(k, v). parsedValue h opts envVars k = Inr v)
           (fst (parseAndValidate h keys opts envVars))"
    if r: "snd (parseAndValidate h keys opts envVars) = Inr r" for r
  proof -
    from r have obj: "typeof envVars = ''object''" "envVars \<noteq> JNull"
      by (auto simp: parseAndValidate_def split: if_splits)
    from r have "snd (key_loop h opts envVars keys [] []) = Inr r"
      by (simp add: is_object_loop [OF obj])
    from key_loop_calls [OF assms this] show ?thesis
      by (auto simp: is_object_loop [OF obj])
  qed
  from per_key failed run show ?thesis by blast
qed

theorem validator_called_once_after_conversion_witness:
  "process_key integer_host (port_options port_validator) (JObject [(''PORT'', JString ''80'')]) ''PORT''
     = ([(''PORT'', JNumber (Some 80))], Inl (Error ''Port must be between 1024 and 65535''))
   \<and> process_key integer_host (port_options string_thrower) (JObject [(''PORT'', JString ''80'')]) ''PORT''
     = ([(''PORT'', JNumber (Some 80))], Inl (Error ''Validation failed for PORT: rejected''))
   \<and> process_key integer_host (port_options port_validator) (JObject [(''PORT'', JString ''x'')]) ''PORT''
     = ([], Inl (TypeError ''Failed to parse PORT as number: x''))
   \<and> parseAndValidate integer_host [''PORT''] (port_options port_validator)
        (JObject [(''PORT'', JString ''3000'')])
     = ([(''PORT'', JNumber (Some 3000))], Inr [(''PORT'', JNumber (Some 3000))])"
proof -
  let ?env = "JObject [(''PORT'', JString ''80'')] :: int option jsval"
  let ?bad = "JObject [(''PORT'', JString ''x'')] :: int option jsval"
  let ?good = "JObject [(''PORT'', JString ''3000'')] :: int option jsval"
  have v1: "validator (port_options port_validator) = Some port_validator"
    and v2: "validator (port_options string_thrower) = Some string_thrower"
    by (simp_all add: port_options_def)
  have p1: "parsedValue integer_host (port_options port_validator) ?env ''PORT''
      = Inr (JNumber (Some 80))" by code_simp
  have p2: "parsedValue integer_host (port_options string_thrower) ?env ''PORT''
      = Inr (JNumber (Some 80))" by code_simp
  have p3: "parsedValue integer_host (port_options port_validator) ?bad ''PORT''
      = Inl (TypeError ''Failed to parse PORT as number: x'')" by code_simp
  have f1: "port_validator ''PORT'' (JNumber (Some 80))
      = Some (ThrownError (Error ''Port must be between 1024 and 65535''))"
    by (simp add: port_validator_def)
  have f2: "string_thrower ''PORT'' (JNumber (Some 80)) = Some (ThrownValue (JString ''rejected''))"
    by (simp add: string_thrower_def)
  have s: "js_String integer_host (JString ''rejected'') = ''rejected''" by simp
  have r: "parseAndValidate integer_host [''PORT''] (port_options port_validator) ?good
      = ([(''PORT'', JNumber (Some 3000))], Inr [(''PORT'', JNumber (Some 3000))])" by code_simp
  have a: "process_key integer_host (port_options port_validator) ?env ''PORT''
     = ([(''PORT'', JNumber (Some 80))], Inl (Error ''Port must be between 1024 and 65535''))"
    using validator_called_once_after_conversion
      [OF v1, of integer_host ?env "''PORT''" "[]"] p1 f1
    by (simp add: prod_eq_iff)
  have b: "process_key integer_host (port_options string_thrower) ?env ''PORT''
     = ([(''PORT'', JNumber (Some 80))], Inl (Error ''Validation failed for PORT: rejected''))"
    using validator_called_once_after_conversion
      [OF v2, of integer_host ?env "''PORT''" "[]"] p2 f2 s
    by (simp add: prod_eq_iff)
  have c: "process_key integer_host (port_options port_validator) ?bad ''PORT''
     = ([], Inl (TypeError ''Failed to parse PORT as number: x''))"
    using validator_called_once_after_conversion
      [OF v1, of integer_host ?bad "''PORT''" "[]"] p3
    by simp
  from a b c r show ?thesis by simp
qed

subsection \<open>C9: an object default is no fallback\<close>

text \<open>
  C9. For a key whose default is a plain object and whose raw value is absent or a
  string of white space only, the value selected is the default, its string form
  \<^verbatim>\<open>[object Object]\<close> is handed to \<^verbatim>\<open>JSON.parse\<close>, which throws, and the handler throws
  \<^verbatim>\<open>Failed to parse {KEY} as JSON: \<close> followed by the parser's message: the key always
  fails, a run over keys that include it never returns a record, and \<^verbatim>\<open>validate\<close>
  fails with this message when the run reaches the key.
\<close>

theorem object_default_is_no_fallback:
  assumes "defaults opts key = Some (JObject ps)"
    and "blank (rawValue h envVars key)"
  shows "process_key h opts envVars key
      = ([], Inl (Error (''Failed to parse '' @ key @ '' as JSON: ''
                @ json_error_text h ''[object Object]'')))
    \<and> (key \<in> set keys \<longrightarrow> (\<exists>ms. validate h keys opts envVars = Issues ms))
    \<and> (typeof envVars = ''object'' \<and> envVars \<noteq> JNull
        \<and> list_all (succeeds h opts envVars) before \<longrightarrow>
          validate h (before @ key # after) opts envVars
            = Issues [''Failed to parse '' @ key @ '' as JSON: ''
                @ json_error_text h ''[object Object]''])"
proof -
  from assms(2) have b: "rawValue h envVars key = JUndefined \<or> isEmpty (rawValue h envVars key)"
    by (simp add: blank_iff)
  then have sel: "selected_value (rawValue h envVars key) (JObject ps) = JObject ps"
    by (auto simp: selected_value_def)
  have p: "parsedValue h opts envVars key
      = Inl (Error (''Failed to parse '' @ key @ '' as JSON: ''
                @ json_error_text h ''[object Object]''))"
    using declared_default [OF assms(1), of h] sel
    by (simp add: parsedValue_def Let_def convert_value_def parse_object_def
        parse_object_Object)
  then have k: "process_key h opts envVars key
      = ([], Inl (Error (''Failed to parse '' @ key @ '' as JSON: ''
                @ json_error_text h ''[object Object]'')))"
    by (simp add: process_key_def)
  then have "\<not> succeeds h opts envVars key" by (simp add: succeeds_def)
  then have "key \<in> set keys \<longrightarrow> (\<exists>ms. validate h keys opts envVars = Issues ms)"
    using failing_key_fails_run [of key keys h opts envVars] by blast
  with k run_fails_at [of envVars h opts before key _ after, OF _ _ _ p]
  show ?thesis by simp
qed

theorem object_default_is_no_fallback_witness:
  "validate integer_host [''CONFIG'']
      \<lparr> defaults_object = Some [(''CONFIG'', JObject [(''debug'', JBoolean False)])], validator = None,
        delimiter = None, arrayTypes_object = None \<rparr>
      (JObject [])
    = Issues [''Failed to parse CONFIG as JSON: Unexpected token in JSON'']"
proof -
  let ?opts = "\<lparr> defaults_object = Some [(''CONFIG'', JObject [(''debug'', JBoolean False)])],
      validator = None, delimiter = None, arrayTypes_object = None \<rparr> :: int option options"
  have d: "defaults ?opts ''CONFIG'' = Some (JObject [(''debug'', JBoolean False)])"
    by (simp add: defaults_def)
  have b: "blank (rawValue integer_host (JObject []) ''CONFIG'')" by code_simp
  from object_default_is_no_fallback [OF d b, of "[]" "[]" "[]"]
  show ?thesis by (simp add: integer_host_def)
qed

subsection \<open>C10: an input that is not an object\<close>

text \<open>
  C10. For every input value that is not a non-null object (\<^verbatim>\<open>typeof\<close> is not
  \<^verbatim>\<open>object\<close>, or the value is \<^verbatim>\<open>null\<close>), \<^verbatim>\<open>~standard.validate\<close> returns a failure
  whose issues list has exactly one entry, with the message \<^verbatim>\<open>Input must be an object\<close>;
  no record is produced, and no key is looked at (the validator is not called).
\<close>

theorem validate_input_must_be_object:
  assumes "typeof value \<noteq> ''object'' \<or> value = JNull"
  shows "validate h keys opts value = Issues [''Input must be an object'']
    \<and> (\<forall>r. validate h keys opts value \<noteq> Value r)
    \<and> fst (parseAndValidate h keys opts value) = []"
  using assms by (auto simp: validate_def parseAndValidate_def)

theorem validate_input_must_be_object_witness:
  "validate integer_host [''PORT''] \<lparr> defaults_object = None, validator = None,
       delimiter = None, arrayTypes_object = None \<rparr> (JString ''PORT=1'')
     = Issues [''Input must be an object'']
   \<and> validate integer_host [] \<lparr> defaults_object = None, validator = None,
       delimiter = None, arrayTypes_object = None \<rparr> JNull
     = Issues [''Input must be an object'']"
  using validate_input_must_be_object [of "JString ''PORT=1''" integer_host "[''PORT'']"]
    validate_input_must_be_object [of JNull integer_host "[]"]
  by simp

end
